theory Spec2Isabelle
  imports Complex_Main "HOL-Library.Log_Nat"
begin

section \<open>JavaScript values\<close>

text \<open>
  The handlers of the backend work on parsed JSON bodies and coerce them with the
  operators of JavaScript (\<open>||\<close>, \<open>&&\<close>, \<open>!\<close>, \<open>Number\<close>, \<open>String\<close>).  A number is
  \<open>NaN\<close> or a finite value, given as a rational; the infinities are not part of the
  model.  Where the store computes a new stock it rounds to the nearest double
  (\<open>round_double\<close> below).
\<close>

datatype jsnum = NaN | Fin rat

datatype jsval =
    JUndefined
  | JNull
  | JBool bool
  | JNum jsnum
  | JStr string
  | JArr "jsval list"
  | JObj "(string \<times> jsval) list"

datatype js_error = TypeError | JsonWebTokenError | CastError | BSONError

text \<open>
  What the code takes from its libraries and the language runtime: the conversion of a
  string to a number and of a number to a string (ECMAScript); of the ObjectId type
  of the store driver, the validity check on a string and the string that
  \<open>String(new ObjectId(s))\<close> prints; and \<open>jwt.verify\<close> with the server's secret,
  which gives the payload of a token or throws (\<open>None\<close>).  They are parameters of the
  model.

  \<open>isValidObjectId\<close> is \<open>ObjectId.isValid\<close> on a string: it holds of the strings that
  \<open>new ObjectId\<close> and the cast of a query id accept, and on every other string those
  two throw.  For an id that is not a string, \<open>castObjectId\<close> is the ObjectId string
  that the cast of a query id gives and \<open>newObjectId\<close> the one that \<open>new ObjectId\<close>
  gives, each \<open>None\<close> where it throws.
\<close>

record jslib =
  StringToNumber :: "string \<Rightarrow> jsnum"
  NumberToString :: "jsnum \<Rightarrow> string"
  isValidObjectId :: "string \<Rightarrow> bool"
  ObjectIdString :: "string \<Rightarrow> string"
  jwt_verify :: "string \<Rightarrow> jsval option"
  castObjectId :: "jsval \<Rightarrow> string option"
  newObjectId :: "jsval \<Rightarrow> string option"

definition num_truthy :: "jsnum \<Rightarrow> bool" where
  "num_truthy n = (n \<noteq> NaN \<and> n \<noteq> Fin 0)"

fun truthy :: "jsval \<Rightarrow> bool" where
  "truthy JUndefined = False"
| "truthy JNull = False"
| "truthy (JBool b) = b"
| "truthy (JNum n) = num_truthy n"
| "truthy (JStr s) = (s \<noteq> [])"
| "truthy (JArr xs) = True"
| "truthy (JObj kvs) = True"

definition js_or :: "jsval \<Rightarrow> jsval \<Rightarrow> jsval" where
  "js_or a b = (if truthy a then a else b)"

definition js_and :: "jsval \<Rightarrow> jsval \<Rightarrow> jsval" where
  "js_and a b = (if truthy a then b else a)"

definition num_or :: "jsnum \<Rightarrow> jsnum \<Rightarrow> jsnum" where
  "num_or a b = (if num_truthy a then a else b)"

fun nullish :: "jsval \<Rightarrow> bool" where
  "nullish JUndefined = True"
| "nullish JNull = True"
| "nullish v = False"

text \<open>
  \<open>v.k\<close> for a value that is neither \<open>null\<close> nor \<open>undefined\<close> (on those the access
  throws a TypeError, which the callers below test first) and for the keys the code
  reads (\<open>items\<close>, \<open>itemId\<close>, \<open>item\<close>, \<open>_id\<close>, \<open>quantity\<close>, \<open>qty\<close>, \<open>stock\<close>):
  an object gives the member or \<open>undefined\<close>, any other value \<open>undefined\<close>.
\<close>

fun getp :: "jsval \<Rightarrow> string \<Rightarrow> jsval" where
  "getp (JObj kvs) k = (case map_of kvs k of Some v \<Rightarrow> v | None \<Rightarrow> JUndefined)"
| "getp v k = JUndefined"

fun join_comma :: "string list \<Rightarrow> string" where
  "join_comma [] = []"
| "join_comma [s] = s"
| "join_comma (s # t # ss) = s @ '','' @ join_comma (t # ss)"

primrec js_String :: "jslib \<Rightarrow> jsval \<Rightarrow> string" where
  "js_String L JUndefined = ''undefined''"
| "js_String L JNull = ''null''"
| "js_String L (JBool b) = (if b then ''true'' else ''false'')"
| "js_String L (JNum n) = NumberToString L n"
| "js_String L (JStr s) = s"
| "js_String L (JArr xs) =
     join_comma (map (\<lambda>(x, s). if nullish x then [] else s) (zip xs (map (js_String L) xs)))"
| "js_String L (JObj kvs) = ''[object Object]''"

fun js_Number :: "jslib \<Rightarrow> jsval \<Rightarrow> jsnum" where
  "js_Number L JUndefined = NaN"
| "js_Number L JNull = Fin 0"
| "js_Number L (JBool b) = (if b then Fin 1 else Fin 0)"
| "js_Number L (JNum n) = n"
| "js_Number L (JStr s) = StringToNumber L s"
| "js_Number L (JArr xs) = StringToNumber L (js_String L (JArr xs))"
| "js_Number L (JObj kvs) = NaN"

fun num_le :: "jsnum \<Rightarrow> jsnum \<Rightarrow> bool" where
  "num_le (Fin a) (Fin b) = (a \<le> b)"
| "num_le a b = False"

fun num_add :: "jsnum \<Rightarrow> jsnum \<Rightarrow> jsnum" where
  "num_add (Fin a) (Fin b) = Fin (a + b)"
| "num_add a b = NaN"

fun num_neg :: "jsnum \<Rightarrow> jsnum" where
  "num_neg (Fin a) = Fin (- a)"
| "num_neg NaN = NaN"

fun Math_max :: "jsnum \<Rightarrow> jsnum \<Rightarrow> jsnum" where
  "Math_max (Fin a) (Fin b) = Fin (max a b)"
| "Math_max a b = NaN"

definition isNaN :: "jsnum \<Rightarrow> bool" where
  "isNaN n = (n = NaN)"

subsection \<open>Rounding to a double\<close>

text \<open>
  The result of an arithmetic operation on doubles is the exact result rounded to the
  nearest double, ties to the even significand (IEEE 754, binary64): 53 significant
  bits, and a unit in the last place of at least \<open>2 ^ - 1074\<close>.  Overflow to an
  infinity is not modelled.  \<open>floor_log2 x\<close> is the exponent \<open>e\<close> with
  \<open>2 ^ e \<le> x < 2 ^ (e + 1)\<close>, for \<open>x > 0\<close>.
\<close>

definition pow2 :: "int \<Rightarrow> rat" where
  "pow2 k = (if 0 \<le> k then 2 ^ nat k else 1 / 2 ^ nat (- k))"

definition floor_log2 :: "rat \<Rightarrow> int" where
  "floor_log2 x = (if 1 \<le> x then bitlen \<lfloor>x\<rfloor> - 1 else - bitlen (\<lceil>1 / x\<rceil> - 1))"

definition round_even :: "rat \<Rightarrow> int" where
  "round_even x =
     (let f = \<lfloor>x\<rfloor>; d = x - of_int f
      in if d < 1 / 2 then f else if 1 / 2 < d then f + 1 else if even f then f else f + 1)"

definition round_double :: "rat \<Rightarrow> rat" where
  "round_double x =
     (if x = 0 then 0
      else let k = max (floor_log2 \<bar>x\<bar> - 52) (- 1074)
           in of_int (round_even (x / pow2 k)) * pow2 k)"

text \<open>The sum of two doubles, as \<open>$inc\<close> computes it.\<close>

fun double_add :: "jsnum \<Rightarrow> jsnum \<Rightarrow> jsnum" where
  "double_add (Fin a) (Fin b) = Fin (round_double (a + b))"
| "double_add a b = NaN"

section \<open>The store and the responses\<close>

text \<open>
  A sweet document: its stock and its other fields.  A cart is the list of its lines
  (item id, quantity), one cart per user.  The store maps the string of an ObjectId to
  the document; an id of a request reaches it through the cast to an ObjectId, which
  throws a CastError on a string that is no ObjectId.  The handlers are modelled from the
  point where the middleware \<open>protect\<close> and \<open>isAdmin\<close>, not among the sources, has let
  the request through.
\<close>

record sweet =
  stock :: jsnum
  other :: "(string \<times> jsval) list"

type_synonym cart = "(string \<times> jsnum) list"

record store =
  sweets :: "string \<Rightarrow> sweet option"
  carts :: "string \<Rightarrow> cart option"

datatype body =
    Message string
  | MessageSweet string sweet
  | PurchaseBody string sweet jsnum
  | CartBody "cart option"
  | Json jsval
  | Health string bool

datatype response = Resp nat body

fun status :: "response \<Rightarrow> nat" where
  "status (Resp c b) = c"

section \<open>Inventory: purchase and restock\<close>

text \<open>
  The lookup of a sweet by an id that the cast accepted, and \<open>Sweet.findById(v)\<close> for
  any value: the cast comes first and may throw.
\<close>

definition findById :: "jslib \<Rightarrow> store \<Rightarrow> string \<Rightarrow> sweet option" where
  "findById L st i = sweets st (ObjectIdString L i)"

definition Sweet_findById :: "jslib \<Rightarrow> store \<Rightarrow> jsval \<Rightarrow> js_error + sweet option" where
  "Sweet_findById L st v =
     (case v of
        JStr s \<Rightarrow> if isValidObjectId L s then Inr (findById L st s) else Inl CastError
      | _ \<Rightarrow> (case castObjectId L v of
                None \<Rightarrow> Inl CastError
              | Some k \<Rightarrow> Inr (sweets st k)))"

text \<open>\<open>new mongoose.Types.ObjectId(v)\<close>, as the string of the new ObjectId.\<close>

definition new_ObjectId :: "jslib \<Rightarrow> jsval \<Rightarrow> js_error + string" where
  "new_ObjectId L v =
     (case v of
        JStr s \<Rightarrow> if isValidObjectId L s then Inr (ObjectIdString L s) else Inl BSONError
      | _ \<Rightarrow> (case newObjectId L v of
                None \<Rightarrow> Inl BSONError
              | Some k \<Rightarrow> Inr k))"

text \<open>
  The two atomic updates of the sweets routes, for the id of the route:
  \<open>findOneAndUpdate({_id, stock: {$gte: qty}}, {$inc: {stock: -qty}}, {new: true})\<close> and
  \<open>findByIdAndUpdate(id, {$inc: {stock: qty}}, {new: true})\<close>.  Each is one step of the
  store; it throws when the id cannot be cast, and otherwise gives the updated document,
  or nothing when no document matched.  The comparison of two doubles is exact; the new
  stock is the sum rounded to a double.
\<close>

definition findOneAndUpdate_stock ::
  "jslib \<Rightarrow> store \<Rightarrow> string \<Rightarrow> jsnum \<Rightarrow> js_error + (sweet option \<times> store)" where
  "findOneAndUpdate_stock L st i qty =
     (if \<not> isValidObjectId L i then Inl CastError
      else
        (case sweets st (ObjectIdString L i) of
           None \<Rightarrow> Inr (None, st)
         | Some sw \<Rightarrow>
             if num_le qty (stock sw)
             then (let sw' = sw\<lparr>stock := double_add (stock sw) (num_neg qty)\<rparr>
                   in Inr (Some sw', st\<lparr>sweets := (sweets st)(ObjectIdString L i \<mapsto> sw')\<rparr>))
             else Inr (None, st)))"

definition findByIdAndUpdate_stock ::
  "jslib \<Rightarrow> store \<Rightarrow> string \<Rightarrow> jsnum \<Rightarrow> js_error + (sweet option \<times> store)" where
  "findByIdAndUpdate_stock L st i qty =
     (if \<not> isValidObjectId L i then Inl CastError
      else
        (case sweets st (ObjectIdString L i) of
           None \<Rightarrow> Inr (None, st)
         | Some sw \<Rightarrow>
             (let sw' = sw\<lparr>stock := double_add (stock sw) qty\<rparr>
              in Inr (Some sw', st\<lparr>sweets := (sweets st)(ObjectIdString L i \<mapsto> sw')\<rparr>))))"

text \<open>
  \<open>const { quantity = 1 } = req.body; const qty = Number(quantity) || 1;\<close>
  The destructuring throws on a body that is \<open>null\<close> or \<open>undefined\<close> (the handler's
  \<open>catch\<close> answers 500); the default applies to \<open>undefined\<close> only.
\<close>

definition purchase_qty :: "jslib \<Rightarrow> jsval \<Rightarrow> jsnum" where
  "purchase_qty L body =
     (let quantity = (case getp body ''quantity'' of JUndefined \<Rightarrow> JNum (Fin 1) | v \<Rightarrow> v)
      in num_or (js_Number L quantity) (Fin 1))"

text \<open>
  The diagnostic read after a conditional write that matched nothing, with the answer
  of the handler's \<open>catch\<close> should the read throw.
\<close>

definition purchase_diagnose :: "jslib \<Rightarrow> store \<Rightarrow> string \<Rightarrow> response" where
  "purchase_diagnose L st i =
     (case Sweet_findById L st (JStr i) of
        Inl err \<Rightarrow> Resp 500 (Message ''Server error'')
      | Inr None \<Rightarrow> Resp 404 (Message ''Sweet not found'')
      | Inr (Some maybe) \<Rightarrow>
          Resp 400 (Message (''Insufficient stock. Only '' @ NumberToString L (stock maybe)
                               @ '' item(s) available.'')))"

text \<open>\<open>router.post("/:id/purchase")\<close>, run without interruption.\<close>

definition purchase :: "jslib \<Rightarrow> store \<Rightarrow> string \<Rightarrow> jsval \<Rightarrow> response \<times> store" where
  "purchase L st i body =
     (if nullish body then (Resp 500 (Message ''Server error''), st)
      else
        let qty = purchase_qty L body in
        if num_le qty (Fin 0) then (Resp 400 (Message ''Quantity must be >= 1''), st)
        else
          (case findOneAndUpdate_stock L st i qty of
             Inl err \<Rightarrow> (Resp 500 (Message ''Server error''), st)
           | Inr (Some sw, st') \<Rightarrow> (Resp 200 (PurchaseBody ''Purchase successful'' sw qty), st')
           | Inr (None, st') \<Rightarrow> (purchase_diagnose L st' i, st')))"

text \<open>\<open>router.post("/:id/restock")\<close>.\<close>

definition restock :: "jslib \<Rightarrow> store \<Rightarrow> string \<Rightarrow> jsval \<Rightarrow> response \<times> store" where
  "restock L st i body =
     (if nullish body then (Resp 500 (Message ''Server error''), st)
      else
        let quantity = getp body ''quantity'';
            qty = js_Number L quantity
        in
        if \<not> truthy quantity \<or> isNaN qty \<or> num_le qty (Fin 0)
        then (Resp 400 (Message ''Please provide a valid quantity > 0''), st)
        else
          (case findByIdAndUpdate_stock L st i qty of
             Inl err \<Rightarrow> (Resp 500 (Message ''Server error''), st)
           | Inr (None, st') \<Rightarrow> (Resp 404 (Message ''Sweet not found''), st')
           | Inr (Some sw, st') \<Rightarrow> (Resp 200 (MessageSweet ''Restocked successfully'' sw), st')))"

section \<open>Concurrent purchase calls\<close>

text \<open>
  The handler awaits the store twice: at the conditional write, and, when that matched
  nothing, at the diagnostic read.  Between the two, other calls may run.  A call is
  therefore a task that is pending (nothing done yet), reading (the write matched
  nothing, the diagnostic read is still to come) or done with its response; each step of
  the system runs one task up to its next await.
\<close>

datatype task =
    Pending string jsval
  | Reading string
  | Done string response

fun task_step :: "jslib \<Rightarrow> store \<Rightarrow> task \<Rightarrow> (store \<times> task) option" where
  "task_step L st (Pending i body) =
     (if nullish body then Some (st, Done i (Resp 500 (Message ''Server error'')))
      else
        let qty = purchase_qty L body in
        if num_le qty (Fin 0) then Some (st, Done i (Resp 400 (Message ''Quantity must be >= 1'')))
        else
          (case findOneAndUpdate_stock L st i qty of
             Inl err \<Rightarrow> Some (st, Done i (Resp 500 (Message ''Server error'')))
           | Inr (Some sw, st') \<Rightarrow> Some (st', Done i (Resp 200 (PurchaseBody ''Purchase successful'' sw qty)))
           | Inr (None, st') \<Rightarrow> Some (st', Reading i)))"
| "task_step L st (Reading i) = Some (st, Done i (purchase_diagnose L st i))"
| "task_step L st (Done i r) = None"

inductive step :: "jslib \<Rightarrow> store \<times> task list \<Rightarrow> store \<times> task list \<Rightarrow> bool" for L where
  run_task: "i < length ts \<Longrightarrow> task_step L st (ts ! i) = Some (st', t') \<Longrightarrow>
               step L (st, ts) (st', ts[i := t'])"

text \<open>A schedule names the task to run at each step; a task that is done is skipped.\<close>

fun run :: "jslib \<Rightarrow> nat list \<Rightarrow> store \<times> task list \<Rightarrow> store \<times> task list" where
  "run L [] c = c"
| "run L (i # sched) (st, ts) =
     (if i < length ts
      then (case task_step L st (ts ! i) of
              None \<Rightarrow> run L sched (st, ts)
            | Some (st', t') \<Rightarrow> run L sched (st', ts[i := t']))
      else run L sched (st, ts))"

text \<open>The quantity a task has bought of the item stored under key \<open>k\<close>.\<close>

fun bought :: "jslib \<Rightarrow> string \<Rightarrow> task \<Rightarrow> rat" where
  "bought L k (Done i (Resp c (PurchaseBody m sw (Fin q)))) =
     (if c = 200 \<and> ObjectIdString L i = k then q else 0)"
| "bought L k t = 0"

definition sold :: "jslib \<Rightarrow> string \<Rightarrow> task list \<Rightarrow> rat" where
  "sold L k ts = sum_list (map (bought L k) ts)"

fun is_done :: "task \<Rightarrow> bool" where
  "is_done (Done i r) = True"
| "is_done t = False"

text \<open>The awaits a task still has before it: every step of a task takes one or both.\<close>

fun weight :: "task \<Rightarrow> nat" where
  "weight (Pending i body) = 2"
| "weight (Reading i) = 1"
| "weight (Done i r) = 0"

section \<open>Cart: normalisation, add and replace\<close>

text \<open>
  The callback of \<open>normalizePayload\<close>, used on each element of \<open>body.items\<close> and on
  the body itself:
  \<open>maybeId = it.itemId || it.item || it._id || (it.item && it.item._id)\<close> and
  \<open>quantity = Number(it.quantity || it.qty || 1)\<close>.
\<close>

definition entry_of :: "jslib \<Rightarrow> jsval \<Rightarrow> jsval \<times> jsnum" where
  "entry_of L it =
     (let maybeId = js_or (js_or (js_or (getp it ''itemId'') (getp it ''item'')) (getp it ''_id''))
                          (js_and (getp it ''item'') (getp (getp it ''item'') ''_id''))
      in (maybeId, js_Number L (js_or (js_or (getp it ''quantity'') (getp it ''qty'')) (JNum (Fin 1)))))"

text \<open>\<open>body.items.map(...)\<close>: reading a property of a \<open>null\<close> element throws.\<close>

fun map_entries :: "jslib \<Rightarrow> jsval list \<Rightarrow> js_error + (jsval \<times> jsnum) list" where
  "map_entries L [] = Inr []"
| "map_entries L (it # its) =
     (if nullish it then Inl TypeError
      else (case map_entries L its of
              Inl e \<Rightarrow> Inl e
            | Inr es \<Rightarrow> Inr (entry_of L it # es)))"

definition normalizePayload :: "jslib \<Rightarrow> jsval \<Rightarrow> js_error + (jsval \<times> jsnum) list" where
  "normalizePayload L body =
     (if \<not> truthy body then Inr []
      else (case getp body ''items'' of
              JArr its \<Rightarrow> map_entries L its
            | _ \<Rightarrow> (let (maybeId, quantity) = entry_of L body
                    in if truthy maybeId then Inr [(maybeId, quantity)] else Inr [])))"

text \<open>
  The validation loop of \<open>POST /api/cart\<close>: the first entry that fails a check ends the
  request with its response; otherwise the validated entries, in order.
\<close>

fun validate_post :: "jslib \<Rightarrow> store \<Rightarrow> (jsval \<times> jsnum) list \<Rightarrow> response + (string \<times> jsnum) list" where
  "validate_post L st [] = Inr []"
| "validate_post L st ((itemId, quantity) # raw) =
     (if \<not> truthy itemId then Inl (Resp 400 (Message ''Missing itemId for an item''))
      else
        let idStr = js_String L itemId in
        if \<not> isValidObjectId L idStr then Inl (Resp 400 (Message (''Invalid itemId: '' @ idStr)))
        else (case findById L st idStr of
                None \<Rightarrow> Inl (Resp 404 (Message (''Item not found: '' @ idStr)))
              | Some dbItem \<Rightarrow>
                  (case validate_post L st raw of
                     Inl r \<Rightarrow> Inl r
                   | Inr normalized \<Rightarrow>
                       Inr ((idStr, Math_max (Fin 1) (num_or quantity (Fin 1))) # normalized))))"

text \<open>
  \<open>cart.items.findIndex((ci) => String(ci.item) === String(itemId))\<close>; a line holds the
  string of its ObjectId.
\<close>

fun findIndex :: "(string \<times> jsnum) list \<Rightarrow> string \<Rightarrow> nat option" where
  "findIndex [] itemId = None"
| "findIndex (ci # items) itemId =
     (if fst ci = itemId then Some 0
      else (case findIndex items itemId of None \<Rightarrow> None | Some idx \<Rightarrow> Some (Suc idx)))"

definition merge_line :: "jslib \<Rightarrow> cart \<Rightarrow> string \<times> jsnum \<Rightarrow> cart" where
  "merge_line L items e =
     (case findIndex items (fst e) of
        Some idx \<Rightarrow> items[idx := (fst (items ! idx), num_add (num_or (snd (items ! idx)) (Fin 0)) (snd e))]
      | None \<Rightarrow> items @ [(ObjectIdString L (fst e), snd e)])"

text \<open>\<open>router.post("/")\<close> of the cart routes, for the authenticated user \<open>u\<close>.\<close>

definition post_cart :: "jslib \<Rightarrow> store \<Rightarrow> string \<Rightarrow> jsval \<Rightarrow> response \<times> store" where
  "post_cart L st u body =
     (case normalizePayload L body of
        Inl e \<Rightarrow> (Resp 500 (Message ''Failed to update cart''), st)
      | Inr raw \<Rightarrow>
          if raw = [] then (Resp 400 (Message ''No items provided''), st)
          else (case validate_post L st raw of
                  Inl r \<Rightarrow> (r, st)
                | Inr normalized \<Rightarrow>
                    (case carts st u of
                       None \<Rightarrow>
                         (let itemsForCart = map (\<lambda>(itemId, quantity). (ObjectIdString L itemId, quantity)) normalized
                          in (Resp 201 (CartBody (Some itemsForCart)),
                              st\<lparr>carts := (carts st)(u \<mapsto> itemsForCart)\<rparr>))
                     | Some items \<Rightarrow>
                         (let items' = foldl (merge_line L) items normalized
                          in (Resp 200 (CartBody (Some items')),
                              st\<lparr>carts := (carts st)(u \<mapsto> items')\<rparr>)))))"

text \<open>
  The validation loop of \<open>PUT /api/cart\<close> and the handler.  Here \<open>findById\<close> and
  \<open>new ObjectId\<close> get \<open>it.itemId\<close> itself, not its string; when one of them throws,
  the handler's \<open>catch\<close> answers 500.
\<close>

fun validate_put :: "jslib \<Rightarrow> store \<Rightarrow> (jsval \<times> jsnum) list \<Rightarrow> response + (string \<times> jsnum) list" where
  "validate_put L st [] = Inr []"
| "validate_put L st ((itemId, quantity) # raw) =
     (if \<not> truthy itemId then Inl (Resp 400 (Message ''Missing itemId''))
      else if \<not> isValidObjectId L (js_String L itemId) then Inl (Resp 400 (Message ''Invalid itemId''))
      else (case Sweet_findById L st itemId of
              Inl err \<Rightarrow> Inl (Resp 500 (Message ''Failed to replace cart''))
            | Inr None \<Rightarrow> Inl (Resp 404 (Message (''Item not found: '' @ js_String L itemId)))
            | Inr (Some dbItem) \<Rightarrow>
                (case new_ObjectId L itemId of
                   Inl err \<Rightarrow> Inl (Resp 500 (Message ''Failed to replace cart''))
                 | Inr item \<Rightarrow>
                     (case validate_put L st raw of
                        Inl r \<Rightarrow> Inl r
                      | Inr normalized \<Rightarrow>
                          Inr ((item, Math_max (Fin 1) (num_or quantity (Fin 1))) # normalized)))))"

definition put_cart :: "jslib \<Rightarrow> store \<Rightarrow> string \<Rightarrow> jsval \<Rightarrow> response \<times> store" where
  "put_cart L st u body =
     (case normalizePayload L body of
        Inl e \<Rightarrow> (Resp 500 (Message ''Failed to replace cart''), st)
      | Inr raw \<Rightarrow>
          (case validate_put L st raw of
             Inl r \<Rightarrow> (r, st)
           | Inr normalized \<Rightarrow>
               (Resp 200 (CartBody (Some normalized)), st\<lparr>carts := (carts st)(u \<mapsto> normalized)\<rparr>)))"

section \<open>Connection supervision and the availability gate\<close>

text \<open>
  \<open>Math.min(baseDelay * Math.pow(2, attempt - 1), 60000)\<close> with \<open>baseDelay = 2000\<close>
  (milliseconds), and \<open>Math.round(Math.random() * 1000)\<close> for a draw \<open>r\<close> of
  \<open>Math.random()\<close>.
\<close>

definition backoff_delay :: "nat \<Rightarrow> int" where
  "backoff_delay attempt = min (2000 * 2 ^ (attempt - 1)) 60000"

definition jitter :: "rat \<Rightarrow> int" where
  "jitter r = round (r * 1000)"

definition wait :: "nat \<Rightarrow> rat \<Rightarrow> int" where
  "wait attempt r = backoff_delay attempt + jitter r"

text \<open>
  The loop of \<open>connectWithRetry\<close>.  The environment says whether the connection attempt
  number \<open>n\<close> succeeds (\<open>ok n\<close>; otherwise \<open>mongoose.connect\<close> throws and the
  \<open>catch\<close> block runs) and what \<open>Math.random()\<close> returns in it (\<open>rnd n\<close>).  The
  result is the flag \<open>dbConnected\<close>, the number of attempts made and the waits slept, in
  order; a loop that never ends has no result.
\<close>

record connection =
  connected :: bool
  attempts :: nat
  waited :: "int list"

partial_function (option) connect_loop ::
  "(nat \<Rightarrow> bool) \<Rightarrow> (nat \<Rightarrow> rat) \<Rightarrow> nat \<Rightarrow> int list \<Rightarrow> connection option" where
  "connect_loop ok rnd attempt ws =
     (let attempt = attempt + 1 in
      if ok attempt then Some \<lparr>connected = True, attempts = attempt, waited = ws\<rparr>
      else connect_loop ok rnd attempt (ws @ [wait attempt (rnd attempt)]))"

definition connectWithRetry :: "(nat \<Rightarrow> bool) \<Rightarrow> (nat \<Rightarrow> rat) \<Rightarrow> connection option" where
  "connectWithRetry ok rnd = connect_loop ok rnd 0 []"

text \<open>
  The server: the flag \<open>dbConnected\<close> and the store.  The middleware mounted on
  \<open>/api\<close> answers 503 while the flag is false and calls \<open>next\<close> otherwise.
\<close>

record server =
  dbConnected :: bool
  db :: store

definition unavailable :: string where
  "unavailable = ''Service temporarily unavailable '' @ [CHR 0xE2, CHR 0x80, CHR 0x94]
                   @ '' database not connected. Please try again in a moment.''"

definition api_gate :: "server \<Rightarrow> (server \<Rightarrow> response \<times> server) \<Rightarrow> response \<times> server" where
  "api_gate sv next = (if \<not> dbConnected sv then (Resp 503 (Message unavailable), sv) else next sv)"

text \<open>The mutating calls behind the gate, each with its route parameter or user and its body.\<close>

datatype api_call =
    PurchaseCall string jsval
  | RestockCall string jsval
  | CartAdd string jsval
  | CartReplace string jsval

fun route :: "jslib \<Rightarrow> api_call \<Rightarrow> store \<Rightarrow> response \<times> store" where
  "route L (PurchaseCall i body) st = purchase L st i body"
| "route L (RestockCall i body) st = restock L st i body"
| "route L (CartAdd u body) st = post_cart L st u body"
| "route L (CartReplace u body) st = put_cart L st u body"

definition api :: "jslib \<Rightarrow> server \<Rightarrow> api_call \<Rightarrow> response \<times> server" where
  "api L sv call =
     api_gate sv (\<lambda>sv. let (r, st') = route L call (db sv) in (r, sv\<lparr>db := st'\<rparr>))"

text \<open>A successful \<open>mongoose.connect\<close> in \<open>connectWithRetry\<close> sets the flag.\<close>

definition on_connected :: "connection \<Rightarrow> server \<Rightarrow> server" where
  "on_connected c sv = sv\<lparr>dbConnected := connected c\<rparr>"

section \<open>Role resolution and stock redaction\<close>

text \<open>
  \<open>auth.startsWith("Bearer ") ? auth.split(" ")[1] : null\<close>: the characters after the
  prefix, up to the next space.
\<close>

definition bearer_token :: "string \<Rightarrow> string option" where
  "bearer_token auth =
     (if take 7 auth = ''Bearer '' then Some (takeWhile (\<lambda>c. c \<noteq> CHR '' '') (drop 7 auth))
      else None)"

text \<open>
  The body of the \<open>try\<close> block of \<open>requestIsAdmin\<close>, for the Authorization header of
  the request (\<open>None\<close> when the header is absent), and the function with its \<open>catch\<close>.
\<close>

definition requestIsAdmin_try :: "jslib \<Rightarrow> string option \<Rightarrow> js_error + jsval" where
  "requestIsAdmin_try L authorization =
     (let auth = (case authorization of None \<Rightarrow> [] | Some a \<Rightarrow> a) in
      case bearer_token auth of
        None \<Rightarrow> Inr (JBool False)
      | Some token \<Rightarrow>
          if token = [] then Inr (JBool False)
          else (case jwt_verify L token of
                  None \<Rightarrow> Inl JsonWebTokenError
                | Some payload \<Rightarrow>
                    Inr (js_and payload (JBool (getp payload ''role'' = JStr ''admin'')))))"

definition requestIsAdmin :: "jslib \<Rightarrow> string option \<Rightarrow> jsval" where
  "requestIsAdmin L authorization =
     (case requestIsAdmin_try L authorization of Inl err \<Rightarrow> JBool False | Inr v \<Rightarrow> v)"

text \<open>
  \<open>o.stock = undefined\<close> on a plain object: the member is set where it is, or added.
\<close>

definition set_prop :: "(string \<times> jsval) list \<Rightarrow> string \<Rightarrow> jsval \<Rightarrow> (string \<times> jsval) list" where
  "set_prop kvs k v =
     (if k \<in> fst ` set kvs then map (\<lambda>(k', v'). if k' = k then (k', v) else (k', v')) kvs
      else kvs @ [(k, v)])"

definition hideStockForNonAdmin :: "(string \<times> jsval) list list \<Rightarrow> jsval \<Rightarrow> (string \<times> jsval) list list" where
  "hideStockForNonAdmin docs isAdmin =
     (if truthy isAdmin then docs else map (\<lambda>s. set_prop s ''stock'' JUndefined) docs)"

text \<open>
  What \<open>res.json\<close> sends, as the value the client parses: \<open>JSON.stringify\<close> leaves out
  the members of an object whose value is \<open>undefined\<close>, and writes \<open>null\<close> for
  \<open>undefined\<close> in an array and for \<open>NaN\<close>.
\<close>

primrec to_json :: "jsval \<Rightarrow> jsval" where
  "to_json JUndefined = JUndefined"
| "to_json JNull = JNull"
| "to_json (JBool b) = JBool b"
| "to_json (JNum n) = (if n = NaN then JNull else JNum n)"
| "to_json (JStr s) = JStr s"
| "to_json (JArr xs) = JArr (map (\<lambda>v. if v = JUndefined then JNull else v) (map to_json xs))"
| "to_json (JObj kvs) = JObj (filter (\<lambda>p. snd p \<noteq> JUndefined) (map (map_prod id to_json) kvs))"

text \<open>
  The end of \<open>GET /api/sweets\<close> and of \<open>GET /api/sweets/search\<close>, which differ in the
  query only: \<open>docs\<close> are the documents found (\<open>sweets\<close> in the source), as the plain
  objects that \<open>toObject\<close> gives.
\<close>

definition list_sweets :: "jslib \<Rightarrow> string option \<Rightarrow> (string \<times> jsval) list list \<Rightarrow> response" where
  "list_sweets L authorization docs =
     (let isAdmin = requestIsAdmin L authorization;
          out = hideStockForNonAdmin docs isAdmin
      in Resp 200 (Json (to_json (JArr (map JObj out)))))"

text \<open>The members that \<open>to_json\<close> keeps of an object.\<close>

definition json_members :: "(string \<times> jsval) list \<Rightarrow> (string \<times> jsval) list" where
  "json_members kvs = filter (\<lambda>p. snd p \<noteq> JUndefined) (map (map_prod id to_json) kvs)"

section \<open>Notions used in the statements\<close>

text \<open>A number that is an integer.\<close>

definition is_int :: "rat \<Rightarrow> bool" where
  "is_int r = (of_int \<lfloor>r\<rfloor> = r)"

text \<open>
  A task whose quantity, if it is still to be bought, is an integer; and the two
  invariants of the stock of the item under key \<open>k\<close>: it is not negative; and, for a
  system that started with the integer stock \<open>s0\<close> and buys integer quantities, it is
  \<open>s0\<close> less what the tasks have bought, an integer of at most \<open>2 ^ 53\<close>.
\<close>

fun int_qty :: "jslib \<Rightarrow> task \<Rightarrow> bool" where
  "int_qty L (Pending i body) = (case purchase_qty L body of Fin q \<Rightarrow> is_int q | NaN \<Rightarrow> False)"
| "int_qty L t = True"

definition stock_nonneg :: "string \<Rightarrow> store \<times> task list \<Rightarrow> bool" where
  "stock_nonneg k c = (\<exists>sw s. sweets (fst c) k = Some sw \<and> stock sw = Fin s \<and> 0 \<le> s)"

definition stock_exact :: "jslib \<Rightarrow> string \<Rightarrow> rat \<Rightarrow> store \<times> task list \<Rightarrow> bool" where
  "stock_exact L k s0 c =
     (list_all (int_qty L) (snd c)
      \<and> (\<exists>sw. sweets (fst c) k = Some sw \<and> stock sw = Fin (s0 - sold L k (snd c))
                \<and> is_int (s0 - sold L k (snd c)) \<and> 0 \<le> s0 - sold L k (snd c)
                \<and> s0 - sold L k (snd c) \<le> 2 ^ 53))"

text \<open>
  What is seen of a state: what each task has bought of the item under key \<open>k\<close>, and
  the stock of the item.
\<close>

definition outcome :: "jslib \<Rightarrow> string \<Rightarrow> store \<times> task list \<Rightarrow> rat list \<times> jsnum option" where
  "outcome L k c = (map (bought L k) (snd c), map_option stock (sweets (fst c) k))"





section \<open>A library instance and a store for concrete runs\<close>

text \<open>
  Decimal printing of natural numbers, ids of 24 characters that are their own ObjectId
  string, and two tokens that verify, one of an admin and one of a user.  Of the ids that
  are not strings, a query id that is an array of one valid string is cast to that
  string, and \<open>new ObjectId\<close> throws on all.
\<close>

fun show_nat :: "nat \<Rightarrow> string" where
  "show_nat n =
     (if n < 10 then [''0123456789'' ! n]
      else show_nat (n div 10) @ [''0123456789'' ! (n mod 10)])"

definition test_lib :: jslib where
  "test_lib =
     \<lparr>StringToNumber = (\<lambda>s. NaN),
      NumberToString = (\<lambda>n. case n of NaN \<Rightarrow> ''NaN'' | Fin r \<Rightarrow> show_nat (nat \<lfloor>r\<rfloor>)),
      isValidObjectId = (\<lambda>s. length s = 24),
      ObjectIdString = (\<lambda>s. s),
      jwt_verify = (\<lambda>t. if t = ''admin-token'' then Some (JObj [(''role'', JStr ''admin'')])
                        else if t = ''user-token'' then Some (JObj [(''role'', JStr ''user'')])
                        else None),
      castObjectId = (\<lambda>v. case v of JArr [JStr s] \<Rightarrow> if length s = 24 then Some s else None
                              | _ \<Rightarrow> None),
      newObjectId = (\<lambda>v. None)\<rparr>"

definition idA :: string where
  "idA = ''aaaaaaaaaaaaaaaaaaaaaaaa''"

definition idB :: string where
  "idB = ''bbbbbbbbbbbbbbbbbbbbbbbb''"

definition sweetA :: sweet where
  "sweetA = \<lparr>stock = Fin 3, other = [(''name'', JStr ''Ladoo'')]\<rparr>"

definition shop :: store where
  "shop = \<lparr>sweets = [idA \<mapsto> sweetA], carts = Map.empty\<rparr>"

definition shop_with_cart :: store where
  "shop_with_cart = \<lparr>sweets = [idA \<mapsto> sweetA], carts = [''u1'' \<mapsto> [(idA, Fin 1)]]\<rparr>"

text \<open>
  The double nearest to one tenth, a store with one unit of the item in stock, and one
  with \<open>2 ^ 53\<close> units.
\<close>

definition tenth :: rat where
  "tenth = 3602879701896397 / 36028797018963968"

definition jar :: store where
  "jar = \<lparr>sweets = [idA \<mapsto> \<lparr>stock = Fin 1, other = []\<rparr>], carts = Map.empty\<rparr>"

definition vault :: store where
  "vault = \<lparr>sweets = [idA \<mapsto> \<lparr>stock = Fin 9007199254740992, other = []\<rparr>], carts = Map.empty\<rparr>"

definition quantity_body :: "rat \<Rightarrow> jsval" where
  "quantity_body q = JObj [(''quantity'', JNum (Fin q))]"

definition entry_body :: "string \<Rightarrow> rat \<Rightarrow> jsval" where
  "entry_body X q = JObj [(''itemId'', JStr X), (''quantity'', JNum (Fin q))]"

lemmas test_defs = test_lib_def idA_def idB_def sweetA_def shop_def shop_with_cart_def
  quantity_body_def entry_body_def jar_def vault_def

section \<open>Rounding\<close>

text \<open>
  Rounding keeps the sign, and an integer of at most \<open>2 ^ 53\<close> is a double: it is
  rounded to itself.
\<close>

lemma pow2_pos: "0 < pow2 k" by (simp add: pow2_def)

lemma round_even_nonneg: "0 \<le> x \<Longrightarrow> 0 \<le> round_even x"
  by (auto simp: round_even_def Let_def)

lemma round_even_int: "round_even (of_int n) = n"
  by (simp add: round_even_def)

lemma round_double_nonneg: "0 \<le> x \<Longrightarrow> 0 \<le> round_double x"
proof -
  assume x: "0 \<le> x"
  have "0 \<le> rat_of_int (round_even (x / pow2 k)) * pow2 k" for k
  proof -
    have "0 \<le> x / pow2 k" using x pow2_pos[of k] by simp
    then have "0 \<le> round_even (x / pow2 k)" by (rule round_even_nonneg)
    then show ?thesis using pow2_pos[of k] by simp
  qed
  then show ?thesis by (simp add: round_double_def Let_def)
qed

lemma round_double_int:
  assumes "0 \<le> n" and "n \<le> 2 ^ 53"
  shows "round_double (of_int n) = of_int n"
proof (cases "n = 0")
  case True
  then show ?thesis by (simp add: round_double_def)
next
  case False
  with assms have pos: "0 < n" by simp
  then have b1: "1 \<le> bitlen n" by (simp add: bitlen_ge_iff_power)
  have fl: "floor_log2 \<bar>rat_of_int n\<bar> = bitlen n - 1"
    using pos by (simp add: floor_log2_def)
  define k where "k = max (bitlen n - 1 - 52) (- 1074)"
  have k: "k = bitlen n - 53" using b1 by (simp add: k_def)
  have rd: "round_double (of_int n) = of_int (round_even (of_int n / pow2 k)) * pow2 k"
    using pos unfolding round_double_def fl k_def Let_def by simp
  show ?thesis
  proof (cases "bitlen n \<le> 53")
    case True
    then have "k \<le> 0" using k by simp
    then have p: "pow2 k = 1 / 2 ^ nat (- k)" by (auto simp: pow2_def)
    have "of_int n / pow2 k = (of_int (n * 2 ^ nat (- k)) :: rat)" by (simp add: p)
    then have "round_even (of_int n / pow2 k) = n * 2 ^ nat (- k)"
      using round_even_int by metis
    then show ?thesis by (simp add: rd p)
  next
    case False
    then have "54 \<le> bitlen n" by simp
    then have "2 ^ 53 \<le> n" by (simp add: bitlen_ge_iff_power)
    with assms have n: "n = 2 ^ 53" by simp
    have "round_double (rat_of_int (2 ^ 53)) = rat_of_int (2 ^ 53)" by code_simp
    then show ?thesis unfolding n .
  qed
qed

lemma is_int_of_int: "is_int r \<Longrightarrow> 0 \<le> r \<Longrightarrow> r \<le> 2 ^ 53 \<Longrightarrow> round_double r = r"
proof -
  assume r: "is_int r" "0 \<le> r" "r \<le> 2 ^ 53"
  then obtain n where e: "r = rat_of_int n" by (auto simp: is_int_def)
  have "0 \<le> n" using r(2) e by simp
  moreover have "rat_of_int n \<le> rat_of_int (2 ^ 53)" using r(3) e by simp
  then have "n \<le> 2 ^ 53" by (simp only: of_int_le_iff)
  ultimately have "round_double (of_int n) = of_int n" by (rule round_double_int)
  with e show ?thesis by simp
qed

lemma is_int_diff: "is_int a \<Longrightarrow> is_int b \<Longrightarrow> is_int (a - b)"
  by (metis is_int_def floor_of_int of_int_diff)


lemma is_int_numeral [simp]: "is_int (numeral n)" "is_int 0" "is_int 1"
  by (simp_all add: is_int_def)

section \<open>The stock under concurrent purchases\<close>

lemma purchase_qty_Fin: "\<exists>q. purchase_qty L body = Fin q \<and> q \<noteq> 0"
  by (cases "js_Number L (case getp body ''quantity'' of JUndefined \<Rightarrow> JNum (Fin 1) | v \<Rightarrow> v)")
     (auto simp: purchase_qty_def num_or_def num_truthy_def Let_def)

lemma sum_list_map_update:
  fixes f :: "'a \<Rightarrow> rat"
  shows "i < length xs \<Longrightarrow> sum_list (map f (xs[i := y])) = sum_list (map f xs) - f (xs ! i) + f y"
  by (induction xs arbitrary: i) (auto split: nat.splits)

text \<open>A task that can still run has bought nothing yet, and a step never makes a task pending.\<close>

lemma task_step_bought:
  assumes "task_step L st t = Some (st', t')"
  shows "bought L k t = 0"
  using assms by (cases t) auto

lemma task_step_done: "task_step L st t = None \<longleftrightarrow> is_done t"
  by (cases t) (auto simp: Let_def split: prod.splits option.splits sum.splits)

lemma bought_diagnose: "bought L k (Done i (purchase_diagnose L st i)) = 0"
  by (auto simp: purchase_diagnose_def split: sum.splits option.splits)

lemma task_step_int_qty:
  assumes "task_step L st t = Some (st', t')"
  shows "int_qty L t'"
  using assms by (cases t) (auto simp: Let_def split: if_splits prod.splits option.splits sum.splits)

text \<open>
  One step of a task leaves the stock of an item non-negative: the conditional write
  subtracts a quantity that is at most the stock, and rounding keeps the sign.
\<close>

lemma task_step_nonneg:
  assumes "task_step L st t = Some (st', t')"
    and "sweets st k = Some sw" and "stock sw = Fin s" and "0 \<le> s"
  shows "\<exists>sw' s'. sweets st' k = Some sw' \<and> stock sw' = Fin s' \<and> 0 \<le> s'"
proof (cases t)
  case (Pending i body)
  obtain q where q: "purchase_qty L body = Fin q" using purchase_qty_Fin by blast
  have r: "0 \<le> round_double (s - q)" if "q \<le> s"
    using that by (intro round_double_nonneg) simp
  show ?thesis
  proof (cases "ObjectIdString L i = k")
    case True
    with assms Pending q r show ?thesis
      by (cases "q \<le> s") (auto simp: findOneAndUpdate_stock_def Let_def split: if_splits)
  next
    case False
    with assms Pending q show ?thesis
      by (auto simp: findOneAndUpdate_stock_def Let_def split: if_splits option.splits)
  qed
next
  case (Reading i)
  with assms show ?thesis by auto
next
  case (Done i r)
  with assms show ?thesis by simp
qed

text \<open>
  With integers of at most \<open>2 ^ 53\<close> the subtraction is exact: the step takes from
  the stock what the task then has bought.
\<close>

lemma task_step_exact:
  assumes "task_step L st t = Some (st', t')" and "int_qty L t"
    and "sweets st k = Some sw" and "stock sw = Fin s"
    and "is_int s" and "0 \<le> s" and "s \<le> 2 ^ 53"
  shows "\<exists>sw'. sweets st' k = Some sw' \<and> stock sw' = Fin (s - bought L k t')
               \<and> is_int (s - bought L k t') \<and> 0 \<le> s - bought L k t'
               \<and> s - bought L k t' \<le> 2 ^ 53"
proof (cases t)
  case (Pending i body)
  obtain q where q: "purchase_qty L body = Fin q" using purchase_qty_Fin by blast
  with assms(2) Pending have iq: "is_int q" by simp
  have r: "round_double (s - q) = s - q" if "q \<le> s" "0 < q"
    using that assms(5-7) iq by (intro is_int_of_int is_int_diff) simp_all
  show ?thesis
  proof (cases "ObjectIdString L i = k")
    case True
    with assms Pending q r iq show ?thesis
      by (cases "q \<le> s"; cases "q \<le> 0")
         (auto simp: findOneAndUpdate_stock_def Let_def is_int_diff split: if_splits)
  next
    case False
    with assms Pending q show ?thesis
      by (auto simp: findOneAndUpdate_stock_def Let_def split: if_splits option.splits)
  qed
next
  case (Reading i)
  with assms show ?thesis by (auto simp: bought_diagnose)
next
  case (Done i r)
  with assms show ?thesis by simp
qed

lemma step_nonneg:
  assumes "step L c c'" and "stock_nonneg k c"
  shows "stock_nonneg k c'"
  using assms
proof (induction rule: step.induct)
  case (run_task i ts st st' t')
  from run_task.prems obtain sw s where sw: "sweets st k = Some sw" "stock sw = Fin s" "0 \<le> s"
    by (auto simp: stock_nonneg_def)
  from task_step_nonneg[OF run_task.hyps(2) sw] show ?case by (simp add: stock_nonneg_def)
qed

lemma steps_nonneg:
  assumes "(step L)\<^sup>*\<^sup>* c c'" and "stock_nonneg k c"
  shows "stock_nonneg k c'"
  using assms by (induction rule: rtranclp_induct) (auto intro: step_nonneg)

lemma step_exact:
  assumes "step L c c'" and "stock_exact L k s0 c"
  shows "stock_exact L k s0 c'"
  using assms
proof (induction rule: step.induct)
  case (run_task i ts st st' t')
  from run_task.prems have all: "list_all (int_qty L) ts" by (simp add: stock_exact_def)
  with run_task.hyps(1) have qi: "int_qty L (ts ! i)" by (simp add: list_all_length)
  from run_task.prems obtain sw where sw: "sweets st k = Some sw"
    "stock sw = Fin (s0 - sold L k ts)" "is_int (s0 - sold L k ts)" "0 \<le> s0 - sold L k ts"
    "s0 - sold L k ts \<le> 2 ^ 53"
    by (auto simp: stock_exact_def)
  from task_step_exact[OF run_task.hyps(2) qi sw] obtain sw' where
    sw': "sweets st' k = Some sw'" "stock sw' = Fin (s0 - sold L k ts - bought L k t')"
      "is_int (s0 - sold L k ts - bought L k t')" "0 \<le> s0 - sold L k ts - bought L k t'"
      "s0 - sold L k ts - bought L k t' \<le> 2 ^ 53" by blast
  have "sold L k (ts[i := t']) = sold L k ts + bought L k t'"
    using run_task.hyps task_step_bought[OF run_task.hyps(2), of k]
    by (simp add: sold_def sum_list_map_update)
  then have e: "s0 - sold L k (ts[i := t']) = s0 - sold L k ts - bought L k t'" by simp
  have "list_all (int_qty L) (ts[i := t'])"
    using all task_step_int_qty[OF run_task.hyps(2)]
    by (auto simp: list_all_iff dest!: set_update_subset_insert[THEN subsetD])
  with sw'(1) sw'(2-5)[folded e] show ?case by (simp add: stock_exact_def)
qed

lemma steps_exact:
  assumes "(step L)\<^sup>*\<^sup>* c c'" and "stock_exact L k s0 c"
  shows "stock_exact L k s0 c'"
  using assms by (induction rule: rtranclp_induct) (auto intro: step_exact)

lemma sold_Pending: "sold L k (map (\<lambda>(i, b). Pending i b) calls) = 0"
  by (induction calls) (auto simp: sold_def)

text \<open>Every schedule is a run of the system.\<close>

lemma run_steps: "(step L)\<^sup>*\<^sup>* c (run L sched c)"
proof (induction sched arbitrary: c)
  case Nil
  then show ?case by simp
next
  case (Cons i sched)
  obtain st ts where c: "c = (st, ts)" by (cases c)
  show ?case
  proof (cases "i < length ts")
    case False
    with c Cons show ?thesis by simp
  next
    case True
    show ?thesis
    proof (cases "task_step L st (ts ! i)")
      case None
      with True c Cons show ?thesis by simp
    next
      case (Some p)
      obtain st' t' where p: "p = (st', t')" by (cases p)
      have "step L (st, ts) (st', ts[i := t'])"
        using True Some p by (auto intro: step.intros)
      moreover have "(step L)\<^sup>*\<^sup>* (st', ts[i := t']) (run L sched (st', ts[i := t']))"
        by (rule Cons.IH)
      ultimately show ?thesis using True Some p c
        by (simp add: converse_rtranclp_into_rtranclp)
    qed
  qed
qed

text \<open>
  The system ends: every step lowers the number of awaits left, and as long as a task is
  not done a step is possible.
\<close>

lemma task_step_weight:
  "task_step L st t = Some (st', t') \<Longrightarrow> weight t' < weight t"
  by (cases t) (auto simp: Let_def split: if_splits prod.splits option.splits sum.splits)

lemma sum_list_weight_update:
  "i < length ts \<Longrightarrow> weight t' < weight (ts ! i) \<Longrightarrow>
     sum_list (map weight (ts[i := t'])) < sum_list (map weight ts)"
  by (induction ts arbitrary: i) (auto split: nat.splits)

lemma step_terminates:
  assumes "step L (st, ts) (st', ts')"
  shows "sum_list (map weight ts') < sum_list (map weight ts)"
  using assms
  by (cases rule: step.cases) (auto intro: sum_list_weight_update task_step_weight)

lemma step_progress:
  assumes "\<not> list_all is_done ts"
  shows "\<exists>c'. step L (st, ts) c'"
proof -
  from assms obtain i where i: "i < length ts" "\<not> is_done (ts ! i)"
    by (auto simp: list_all_length)
  then obtain st' t' where "task_step L st (ts ! i) = Some (st', t')"
    using task_step_done[of L st "ts ! i"] by (cases "task_step L st (ts ! i)") auto
  with i(1) show ?thesis by (blast intro: step.intros)
qed

text \<open>The handler run alone is its task run twice.\<close>

lemma purchase_serial:
  "run L [0, 0] (st, [Pending i body])
     = (snd (purchase L st i body), [Done i (fst (purchase L st i body))])"
  by (auto simp: purchase_def Let_def split: prod.splits option.splits sum.splits)

text \<open>
  C1 (amended).  For an item whose stock starts at \<open>s0 \<ge> 0\<close> and any number of purchase
  calls, in every state that any interleaving of the calls reaches (so also when all
  calls are done) the stock of the item is not negative.  When \<open>s0\<close> is an integer of
  at most \<open>2 ^ 53\<close> and the quantities of the calls are integers, the stock is also
  \<open>s0\<close> minus the sum of the quantities of the purchases that succeeded.
\<close>

theorem purchase_interleavings_stock:
  assumes "sweets st0 k = Some sw0" and "stock sw0 = Fin s0" and "0 \<le> s0"
    and "(step L)\<^sup>*\<^sup>* (st0, map (\<lambda>(i, b). Pending i b) calls) (st, ts)"
  shows "(\<exists>sw s. sweets st k = Some sw \<and> stock sw = Fin s \<and> 0 \<le> s)
       \<and> (is_int s0 \<and> s0 \<le> 2 ^ 53 \<and> list_all (int_qty L) (map (\<lambda>(i, b). Pending i b) calls) \<longrightarrow>
            (\<exists>sw. sweets st k = Some sw \<and> stock sw = Fin (s0 - sold L k ts)
                   \<and> 0 \<le> s0 - sold L k ts))"
proof -
  let ?c0 = "(st0, map (\<lambda>(i, b). Pending i b) calls)"
  have "stock_nonneg k ?c0"
    using assms(1-3) by (auto simp: stock_nonneg_def)
  from steps_nonneg[OF assms(4) this] have a: "\<exists>sw s. sweets st k = Some sw \<and> stock sw = Fin s \<and> 0 \<le> s"
    by (simp add: stock_nonneg_def)
  have b: "\<exists>sw. sweets st k = Some sw \<and> stock sw = Fin (s0 - sold L k ts) \<and> 0 \<le> s0 - sold L k ts"
    if "is_int s0" "s0 \<le> 2 ^ 53" "list_all (int_qty L) (map (\<lambda>(i, b). Pending i b) calls)"
  proof -
    have "stock_exact L k s0 ?c0"
      using assms(1-3) that by (simp add: stock_exact_def sold_Pending)
    from steps_exact[OF assms(4) this] show ?thesis by (auto simp: stock_exact_def)
  qed
  show ?thesis using a b by blast
qed

text \<open>
  Two calls for two units each race for a stock of three: the first write wins, the
  second call reads the remaining stock for its message.
\<close>

theorem purchase_interleavings_stock_witness:
  "sweets shop idA = Some sweetA \<and> stock sweetA = Fin 3
   \<and> snd (run test_lib [0, 1, 1] (shop, map (\<lambda>(i, b). Pending i b) [(idA, quantity_body 2), (idA, quantity_body 2)]))
       = [Done idA (Resp 200 (PurchaseBody ''Purchase successful'' (sweetA\<lparr>stock := Fin 1\<rparr>) (Fin 2))),
          Done idA (Resp 400 (Message ''Insufficient stock. Only 1 item(s) available.''))]
   \<and> sweets (fst (run test_lib [0, 1, 1] (shop, map (\<lambda>(i, b). Pending i b) [(idA, quantity_body 2), (idA, quantity_body 2)]))) idA
       = Some (sweetA\<lparr>stock := Fin (3 - 2)\<rparr>)"
proof -
  let ?c0 = "(shop, map (\<lambda>(i, b). Pending i b) [(idA, quantity_body 2), (idA, quantity_body 2)])"
  let ?c1 = "run test_lib [0, 1, 1] ?c0"
  have one: "round_double 1 = 1" using round_double_int[of 1] by simp
  have r: "?c1 = (shop\<lparr>sweets := [idA \<mapsto> sweetA\<lparr>stock := Fin 1\<rparr>]\<rparr>,
       [Done idA (Resp 200 (PurchaseBody ''Purchase successful'' (sweetA\<lparr>stock := Fin 1\<rparr>) (Fin 2))),
        Done idA (Resp 400 (Message ''Insufficient stock. Only 1 item(s) available.''))])"
    by (simp add: test_defs purchase_qty_def num_or_def num_truthy_def one
      findOneAndUpdate_stock_def purchase_diagnose_def Sweet_findById_def findById_def Let_def)
  have s: "(step test_lib)\<^sup>*\<^sup>* ?c0 (fst ?c1, snd ?c1)"
    using run_steps[of test_lib ?c0 "[0, 1, 1]"] by simp
  have h1: "sweets shop idA = Some sweetA" by (simp add: shop_def)
  have h2: "stock sweetA = Fin 3" by (simp add: sweetA_def)
  have h3: "(0::rat) \<le> 3" by simp
  have q: "list_all (int_qty test_lib) (map (\<lambda>(i, b). Pending i b) [(idA, quantity_body 2), (idA, quantity_body 2)])"
    by (simp add: quantity_body_def purchase_qty_def num_or_def num_truthy_def)
  from purchase_interleavings_stock[OF h1 h2 h3 s] q h1 h2 r show ?thesis
    by (simp add: sold_def)
qed

text \<open>
  Ten calls for a tenth each, one after the other, on a stock of one.  The tenth is the
  double nearest to 0.1, a little more than 1/10, and each new stock is rounded: all ten
  calls succeed and leave a stock of \<open>5 / 2 ^ 55\<close>, while one less the sum of the ten
  quantities is negative.
\<close>

theorem purchase_tenths_counterexample:
  "sweets jar idA = Some \<lparr>stock = Fin 1, other = []\<rparr>
   \<and> outcome test_lib idA
        (run test_lib [0, 1, 2, 3, 4, 5, 6, 7, 8, 9] (jar, replicate 10 (Pending idA (quantity_body tenth))))
       = (replicate 10 tenth, Some (Fin (5 / 2 ^ 55)))
   \<and> 1 - 10 * tenth < 0"
  by code_simp

section \<open>Purchase and restock, one call\<close>

text \<open>
  C2 (amended).  A purchase call with a body, an effective quantity \<open>q > 0\<close> and an id
  that is a valid ObjectId string: if the item exists and its stock \<open>s\<close> is less than
  \<open>q\<close>, the answer is 400 with the message that gives \<open>s\<close>, and the store is unchanged;
  if the item does not exist, the answer is 404 and the store is unchanged; the answer is
  200 exactly when the item exists with a stock of at least \<open>q\<close>, and then the stock is
  decremented by \<open>q\<close>, to the nearest double.
\<close>

theorem purchase_insufficient_or_missing:
  assumes "\<not> nullish body" and "purchase_qty L body = Fin q" and "0 < q"
    and "isValidObjectId L i"
  shows "(\<forall>sw s. sweets st (ObjectIdString L i) = Some sw \<and> stock sw = Fin s \<and> s < q \<longrightarrow>
            purchase L st i body =
              (Resp 400 (Message (''Insufficient stock. Only '' @ NumberToString L (Fin s)
                                   @ '' item(s) available.'')), st))
       \<and> (sweets st (ObjectIdString L i) = None \<longrightarrow>
            purchase L st i body = (Resp 404 (Message ''Sweet not found''), st))
       \<and> (status (fst (purchase L st i body)) = 200 \<longleftrightarrow>
            (\<exists>sw. sweets st (ObjectIdString L i) = Some sw \<and> num_le (Fin q) (stock sw)))
       \<and> (\<forall>sw s. sweets st (ObjectIdString L i) = Some sw \<and> stock sw = Fin s \<and> q \<le> s \<longrightarrow>
            purchase L st i body =
              (Resp 200 (PurchaseBody ''Purchase successful'' (sw\<lparr>stock := Fin (round_double (s - q))\<rparr>) (Fin q)),
               st\<lparr>sweets := (sweets st)(ObjectIdString L i \<mapsto> sw\<lparr>stock := Fin (round_double (s - q))\<rparr>)\<rparr>))"
  using assms
  by (auto simp: purchase_def Let_def findOneAndUpdate_stock_def purchase_diagnose_def
      Sweet_findById_def findById_def split: option.splits)

text \<open>A stock of three: five units are refused, an unknown id is not found, two are sold.\<close>

theorem purchase_insufficient_or_missing_witness:
  "purchase test_lib shop idA (quantity_body 5)
     = (Resp 400 (Message ''Insufficient stock. Only 3 item(s) available.''), shop)
   \<and> purchase test_lib shop idB (quantity_body 5) = (Resp 404 (Message ''Sweet not found''), shop)
   \<and> purchase test_lib shop idA (quantity_body 2)
     = (Resp 200 (PurchaseBody ''Purchase successful'' (sweetA\<lparr>stock := Fin 1\<rparr>) (Fin 2)),
        shop\<lparr>sweets := (sweets shop)(idA \<mapsto> sweetA\<lparr>stock := Fin 1\<rparr>)\<rparr>)"
proof -
  have h1: "\<not> nullish (quantity_body q)" for q by (simp add: quantity_body_def)
  have h2: "purchase_qty test_lib (quantity_body 5) = Fin 5" "purchase_qty test_lib (quantity_body 2) = Fin 2"
    by (simp_all add: quantity_body_def purchase_qty_def num_or_def num_truthy_def)
  have v: "isValidObjectId test_lib idA" "isValidObjectId test_lib idB"
    by (simp_all add: test_lib_def idA_def idB_def)
  have a: "sweets shop (ObjectIdString test_lib idA) = Some sweetA \<and> stock sweetA = Fin 3"
    by (simp add: test_defs)
  have b: "sweets shop (ObjectIdString test_lib idB) = None"
    by (simp add: test_defs)
  have n: "NumberToString test_lib (Fin 3) = ''3''" by (simp add: test_lib_def)
  have i: "ObjectIdString test_lib idA = idA" by (simp add: test_lib_def)
  have one: "round_double 1 = 1" using round_double_int[of 1] by simp
  from purchase_insufficient_or_missing[OF h1 h2(1) _ v(1), of shop]
    purchase_insufficient_or_missing[OF h1 h2(1) _ v(2), of shop]
    purchase_insufficient_or_missing[OF h1 h2(2) _ v(1), of shop] a b n i one
  show ?thesis by simp
qed

text \<open>
  An id that is no ObjectId names no item, and the call is answered 500, not 404: the
  cast of the id throws and the handler's \<open>catch\<close> answers.
\<close>

theorem purchase_bad_id_counterexample:
  "findById test_lib shop ''bad'' = None
   \<and> purchase test_lib shop ''bad'' (quantity_body 1) = (Resp 500 (Message ''Server error''), shop)"
  by (simp add: purchase_def purchase_qty_def num_or_def num_truthy_def findOneAndUpdate_stock_def
      findById_def Let_def test_defs)






section \<open>The cart\<close>

lemma normalizePayload_empty: "normalizePayload L (JObj []) = Inr []"
  by (simp add: normalizePayload_def entry_of_def js_or_def js_and_def)


lemma normalizePayload_scalar_item:
  assumes "X \<noteq> []"
  shows "normalizePayload L (JObj [(''items'', JArr [JObj [(''item'', JStr X), (''quantity'', JNum (Fin 3))]])])
           = Inr [(JStr X, Fin 3)]"
  using assms by (simp add: normalizePayload_def entry_of_def js_or_def js_and_def num_truthy_def)

lemma normalizePayload_null_element:
  "normalizePayload L (JObj [(''items'', JArr [JNull])]) = Inl TypeError"
  by (simp add: normalizePayload_def)

text \<open>
  The quantity of an entry: an absent or zero quantity is 1 in \<open>normalizePayload\<close>, a
  negative one is kept there; the validation loops of add and replace floor it at 1.
\<close>

lemma validate_post_quantity:
  "validate_post L st raw = Inr n \<Longrightarrow> (i, q) \<in> set n \<Longrightarrow> \<exists>r. q = Fin r \<and> 1 \<le> r"
proof (induction raw arbitrary: n rule: validate_post.induct)
  case (1 L st)
  then show ?case by simp
next
  case (2 L st itemId quantity raw)
  then show ?case
    by (cases quantity)
       (auto simp: Let_def num_or_def num_truthy_def split: if_splits option.splits sum.splits)
qed

lemma validate_put_quantity:
  "validate_put L st raw = Inr n \<Longrightarrow> (i, q) \<in> set n \<Longrightarrow> \<exists>r. q = Fin r \<and> 1 \<le> r"
proof (induction raw arbitrary: n rule: validate_put.induct)
  case (1 L st)
  then show ?case by simp
next
  case (2 L st itemId quantity raw)
  then show ?case
    by (cases quantity)
       (auto simp: num_or_def num_truthy_def split: if_splits option.splits sum.splits)
qed

lemma entry_of_quantity_default:
  "getp it ''quantity'' = JUndefined \<or> getp it ''quantity'' = JNum (Fin 0) \<Longrightarrow>
   getp it ''qty'' = JUndefined \<Longrightarrow> snd (entry_of L it) = Fin 1"
  by (auto simp: entry_of_def js_or_def num_truthy_def)

lemma entry_of_quantity_negative:
  "snd (entry_of L (entry_body X (- 5))) = Fin (- 5)"
  by (simp add: entry_of_def entry_body_def js_or_def num_truthy_def)

text \<open>
  C3.  On \<open>{items: [{item: {_id: "A"}, quantity: 3}]}\<close> the entry that
  \<open>normalizePayload\<close> returns has the object \<open>{_id: "A"}\<close> itself as its id, not the
  string \<open>"A"\<close>: in \<open>it.itemId || it.item || it._id || (it.item && it.item._id)\<close> a
  truthy \<open>it.item\<close> is returned by the second operand, so the last operand, which
  would read the nested \<open>_id\<close>, is never the result.
\<close>

theorem normalizePayload_nested_item:
  "normalizePayload L (JObj [(''items'', JArr [JObj [(''item'', JObj [(''_id'', JStr ''A'')]),
                                                      (''quantity'', JNum (Fin 3))]])])
     = Inr [(JObj [(''_id'', JStr ''A'')], Fin 3)]
   \<and> normalizePayload L (JObj [(''items'', JArr [JObj [(''item'', JObj [(''_id'', JStr ''A'')]),
                                                        (''quantity'', JNum (Fin 3))]])])
     \<noteq> Inr [(JStr ''A'', Fin 3)]"
  by (simp add: normalizePayload_def entry_of_def js_or_def js_and_def num_truthy_def)

text \<open>The add handler then refuses the entry, whatever the nested id is.\<close>

lemma post_cart_nested_item:
  "post_cart test_lib shop ''u1''
     (JObj [(''items'', JArr [JObj [(''item'', JObj [(''_id'', JStr idA)]), (''quantity'', JNum (Fin 3))]])])
   = (Resp 400 (Message ''Invalid itemId: [object Object]''), shop)"
  by (simp add: post_cart_def normalizePayload_def entry_of_def js_or_def js_and_def
      num_or_def num_truthy_def findById_def Let_def test_defs)
























text \<open>A request that is not answered with success leaves the store as it was.\<close>

lemma post_cart_failure_unchanged:
  "status (fst (post_cart L st u body)) \<notin> {200, 201} \<Longrightarrow> snd (post_cart L st u body) = st"
  by (auto simp: post_cart_def Let_def split: sum.splits option.splits if_splits)

lemma put_cart_failure_unchanged:
  "status (fst (put_cart L st u body)) \<noteq> 200 \<Longrightarrow> snd (put_cart L st u body) = st"
  by (auto simp: put_cart_def split: sum.splits)

text \<open>
  A replace with the id of an existing item wrapped in an array: the lookup casts the
  array, \<open>new ObjectId\<close> throws on it, and the answer is 500.
\<close>

lemma put_cart_array_id:
  "put_cart test_lib shop ''u1'' (JObj [(''items'', JArr [JObj [(''itemId'', JArr [JStr idA])]])])
     = (Resp 500 (Message ''Failed to replace cart''), shop)"
  by (simp add: put_cart_def normalizePayload_def entry_of_def js_or_def js_and_def
      Sweet_findById_def new_ObjectId_def test_defs)




section \<open>Backoff, retry and the gate\<close>

lemma backoff_values:
  "map backoff_delay [1, 2, 3, 4, 5, 6] = [2000, 4000, 8000, 16000, 32000, 60000]"
  by (simp add: backoff_delay_def)

lemma backoff_mono: "n \<le> m \<Longrightarrow> backoff_delay n \<le> backoff_delay m"
proof -
  assume "n \<le> m"
  then have "n - 1 \<le> m - 1" by simp
  then have "(2::int) ^ (n - 1) \<le> 2 ^ (m - 1)" by (simp add: power_increasing)
  then have "2000 * (2::int) ^ (n - 1) \<le> 2000 * 2 ^ (m - 1)" by simp
  then show ?thesis unfolding backoff_delay_def by (intro min.mono) simp_all
qed

lemma backoff_le_cap: "backoff_delay n \<le> 60000"
  by (simp add: backoff_delay_def)

lemma backoff_ge_base: "2000 \<le> backoff_delay n"
  by (simp add: backoff_delay_def)

lemma backoff_capped: "6 \<le> n \<Longrightarrow> backoff_delay n = 60000"
proof -
  assume "6 \<le> n"
  then have "5 \<le> n - 1" by simp
  then have "(2::int) ^ 5 \<le> 2 ^ (n - 1)" by (rule power_increasing) simp
  then show ?thesis by (simp add: backoff_delay_def min_def)
qed

lemma jitter_range: "0 \<le> r \<Longrightarrow> r < 1 \<Longrightarrow> 0 \<le> jitter r \<and> jitter r \<le> 1000"
proof -
  assume r: "0 \<le> r" "r < 1"
  have "0 \<le> r * 1000" using r by simp
  then have a: "0 \<le> round (r * 1000)" by (simp add: round_def)
  have "r * 1000 \<le> 1000" using r by simp
  then have "round (r * 1000) \<le> round (1000::rat)" by (rule round_mono)
  then have b: "round (r * 1000) \<le> 1000" by simp
  show ?thesis using a b by (simp add: jitter_def)
qed

lemma connect_loop_first:
  assumes "a < k" and "ok k" and "\<forall>j. a < j \<and> j < k \<longrightarrow> \<not> ok j"
  shows "connect_loop ok rnd a ws =
           Some \<lparr>connected = True, attempts = k, waited = ws @ map (\<lambda>j. wait j (rnd j)) [Suc a..<k]\<rparr>"
  using assms
proof (induction "k - a" arbitrary: a ws)
  case 0
  then show ?case by simp
next
  case (Suc d)
  show ?case
  proof (cases "Suc a = k")
    case True
    with Suc.prems show ?thesis by (subst connect_loop.simps) (simp add: Let_def)
  next
    case False
    with Suc.prems have lt: "Suc a < k" and nok: "\<not> ok (Suc a)" by auto
    have d: "d = k - Suc a" using Suc.hyps(2) by simp
    have ih: "connect_loop ok rnd (Suc a) (ws @ [wait (Suc a) (rnd (Suc a))]) =
        Some \<lparr>connected = True, attempts = k,
              waited = (ws @ [wait (Suc a) (rnd (Suc a))]) @ map (\<lambda>j. wait j (rnd j)) [Suc (Suc a)..<k]\<rparr>"
      using Suc.hyps(1)[OF d lt Suc.prems(2)] Suc.prems(3) by simp
    have up: "[Suc a..<k] = Suc a # [Suc (Suc a)..<k]" using lt by (simp add: upt_conv_Cons)
    show ?thesis using nok ih up by (subst connect_loop.simps) (simp add: Let_def)
  qed
qed

lemma connect_loop_Some:
  "connect_loop ok rnd a ws = Some c \<Longrightarrow> connected c \<and> a < attempts c \<and> ok (attempts c)"
proof (rule connect_loop.raw_induct
    [where P = "\<lambda>ok rnd a ws c. connected c \<and> a < attempts c \<and> ok (attempts c)"])
  show "connected y \<and> attempt < attempts y \<and> ok (attempts y)"
    if "\<And>ok rnd attempt ws y. loop ok rnd attempt ws = Some y \<Longrightarrow>
           connected y \<and> attempt < attempts y \<and> ok (attempts y)"
      and "(let attempt = attempt + 1 in
            if ok attempt then Some \<lparr>connected = True, attempts = attempt, waited = ws\<rparr>
            else loop ok rnd attempt (ws @ [wait attempt (rnd attempt)])) = Some y"
    for loop ok rnd attempt ws y
  proof (cases "ok (Suc attempt)")
    case True
    with that(2) show ?thesis by (auto simp: Let_def)
  next
    case False
    with that(2) have "loop ok rnd (Suc attempt) (ws @ [wait (Suc attempt) (rnd (Suc attempt))]) = Some y"
      by (simp add: Let_def)
    from that(1)[OF this] show ?thesis by auto
  qed
qed

lemma connect_loop_never:
  assumes "\<forall>j. a < j \<longrightarrow> \<not> ok j"
  shows "connect_loop ok rnd a ws = None"
proof (cases "connect_loop ok rnd a ws")
  case None
  then show ?thesis .
next
  case (Some c)
  from connect_loop_Some[OF Some] assms show ?thesis by blast
qed

text \<open>
  C7.  The delay before the retry after failed attempt \<open>n \<ge> 1\<close> is
  \<open>min (2000 * 2 ^ (n - 1)) 60000\<close> milliseconds, which is 2, 4, 8, 16, 32 and 60
  seconds for the attempts 1 to 6 and never decreases, plus a jitter between 0 and 1000
  milliseconds, so at most 61 seconds in all.  The loop has no ceiling: when attempt
  \<open>k\<close> is the first to succeed, for any \<open>k\<close>, the loop returns connected after exactly
  \<open>k\<close> attempts and the \<open>k - 1\<close> waits; when no attempt succeeds it never returns, so it
  never ends with an error.
\<close>

theorem backoff_and_unbounded_retry:
  "map backoff_delay [1, 2, 3, 4, 5, 6] = [2000, 4000, 8000, 16000, 32000, 60000]
   \<and> (\<forall>n. 1 \<le> n \<longrightarrow> backoff_delay n = min (2000 * 2 ^ (n - 1)) 60000)
   \<and> (\<forall>n m. n \<le> m \<longrightarrow> backoff_delay n \<le> backoff_delay m)
   \<and> (\<forall>n r. 0 \<le> r \<and> r < 1 \<longrightarrow>
         wait n r = backoff_delay n + jitter r \<and> 0 \<le> jitter r \<and> jitter r \<le> 1000
         \<and> backoff_delay n \<le> wait n r \<and> wait n r \<le> 61000)
   \<and> (\<forall>ok rnd k. 1 \<le> k \<and> ok k \<and> (\<forall>j. 1 \<le> j \<and> j < k \<longrightarrow> \<not> ok j) \<longrightarrow>
         connectWithRetry ok rnd
           = Some \<lparr>connected = True, attempts = k, waited = map (\<lambda>j. wait j (rnd j)) [1..<k]\<rparr>)
   \<and> (\<forall>ok rnd. (\<forall>j. 1 \<le> j \<longrightarrow> \<not> ok j) \<longrightarrow> connectWithRetry ok rnd = None)"
proof -
  have c1: "map backoff_delay [1, 2, 3, 4, 5, 6] = [2000, 4000, 8000, 16000, 32000, 60000]"
    by (rule backoff_values)
  have c2: "\<forall>n. 1 \<le> n \<longrightarrow> backoff_delay n = min (2000 * 2 ^ (n - 1)) 60000"
    by (simp add: backoff_delay_def)
  have c3: "\<forall>n m. n \<le> m \<longrightarrow> backoff_delay n \<le> backoff_delay m"
    using backoff_mono by blast
  have c4: "\<forall>n r. 0 \<le> r \<and> r < 1 \<longrightarrow>
         wait n r = backoff_delay n + jitter r \<and> 0 \<le> jitter r \<and> jitter r \<le> 1000
         \<and> backoff_delay n \<le> wait n r \<and> wait n r \<le> 61000"
  proof (intro allI impI)
    fix n and r :: rat assume "0 \<le> r \<and> r < 1"
    then have "0 \<le> jitter r \<and> jitter r \<le> 1000" using jitter_range by blast
    then show "wait n r = backoff_delay n + jitter r \<and> 0 \<le> jitter r \<and> jitter r \<le> 1000
         \<and> backoff_delay n \<le> wait n r \<and> wait n r \<le> 61000"
      using backoff_le_cap[of n] by (simp add: wait_def)
  qed
  have c5: "\<forall>ok rnd k. 1 \<le> k \<and> ok k \<and> (\<forall>j. 1 \<le> j \<and> j < k \<longrightarrow> \<not> ok j) \<longrightarrow>
         connectWithRetry ok rnd
           = Some \<lparr>connected = True, attempts = k, waited = map (\<lambda>j. wait j (rnd j)) [1..<k]\<rparr>"
  proof (intro allI impI)
    fix ok :: "nat \<Rightarrow> bool" and rnd :: "nat \<Rightarrow> rat" and k
    assume h: "1 \<le> k \<and> ok k \<and> (\<forall>j. 1 \<le> j \<and> j < k \<longrightarrow> \<not> ok j)"
    then have "0 < k" "ok k" "\<forall>j. 0 < j \<and> j < k \<longrightarrow> \<not> ok j" by auto
    from connect_loop_first[OF this, of rnd "[]"]
    show "connectWithRetry ok rnd
           = Some \<lparr>connected = True, attempts = k, waited = map (\<lambda>j. wait j (rnd j)) [1..<k]\<rparr>"
      by (simp add: connectWithRetry_def)
  qed
  have c6: "\<forall>ok rnd. (\<forall>j. 1 \<le> j \<longrightarrow> \<not> ok j) \<longrightarrow> connectWithRetry ok rnd = None"
  proof (intro allI impI)
    fix ok :: "nat \<Rightarrow> bool" and rnd :: "nat \<Rightarrow> rat"
    assume "\<forall>j. 1 \<le> j \<longrightarrow> \<not> ok j"
    then have "\<forall>j. 0 < j \<longrightarrow> \<not> ok j" by auto
    from connect_loop_never[OF this, of rnd "[]"]
    show "connectWithRetry ok rnd = None" by (simp add: connectWithRetry_def)
  qed
  show ?thesis by (intro conjI c1 c2 c3 c4 c5 c6)
qed

text \<open>
  A connection that succeeds at the twelfth attempt, beyond the unused
  \<open>maxAttempts = 10\<close> of the source, with every draw of the random source at one half.
\<close>

theorem backoff_and_unbounded_retry_witness:
  "connectWithRetry (\<lambda>n. n = 12) (\<lambda>n. 1 / 2)
     = Some \<lparr>connected = True, attempts = 12,
             waited = [2500, 4500, 8500, 16500, 32500, 60500, 60500, 60500, 60500, 60500, 60500]\<rparr>
   \<and> wait 6 (1 / 2) = 60500 \<and> backoff_delay 3 \<le> backoff_delay 4"
proof -
  have u: "[1..<12] = [1, 2, 3, 4, 5, 6, 7, 8, 9, 10, 11::nat]" by (simp add: upt_rec)
  have j: "jitter (1 / 2) = 500" by (simp add: jitter_def)
  have h: "(1::nat) \<le> 12 \<and> (12::nat) = 12 \<and> (\<forall>j. 1 \<le> j \<and> j < 12 \<longrightarrow> \<not> j = (12::nat))" by simp
  have r: "(0::rat) \<le> 1 / 2 \<and> (1 / 2 :: rat) < 1" by simp
  note t = backoff_and_unbounded_retry
  note loop = t[THEN conjunct2, THEN conjunct2, THEN conjunct2, THEN conjunct2, THEN conjunct1,
      rule_format, where ok = "\<lambda>n. n = 12" and k = 12 and rnd = "\<lambda>n. 1 / 2", OF h]
  note mono = t[THEN conjunct2, THEN conjunct2, THEN conjunct1, rule_format, of 3 4]
  note jit = t[THEN conjunct2, THEN conjunct2, THEN conjunct2, THEN conjunct1, rule_format,
      of "1 / 2" 6, OF r]
  from loop mono jit u j show ?thesis
    by (simp add: wait_def backoff_delay_def)
qed

text \<open>
  C5.  While \<open>dbConnected\<close> is false, the gate answers 503 with its message and returns
  the server as it was, without calling the handler, for any handler and so for each
  mutating call; once the retry loop has returned and set the flag, the gate passes the
  call to its handler.
\<close>

theorem gate_rejects_until_connected:
  "(\<not> dbConnected sv \<longrightarrow>
      api_gate sv next = (Resp 503 (Message unavailable), sv)
      \<and> api L sv call = (Resp 503 (Message unavailable), sv))
   \<and> unavailable \<noteq> []
   \<and> (dbConnected sv \<longrightarrow> api_gate sv next = next sv)
   \<and> (connectWithRetry ok rnd = Some c \<longrightarrow>
        api_gate (on_connected c sv) next = next (on_connected c sv)
        \<and> api L (on_connected c sv) call
            = (fst (route L call (db sv)), (on_connected c sv)\<lparr>db := snd (route L call (db sv))\<rparr>))"
proof -
  have "connected c" if "connectWithRetry ok rnd = Some c"
    using connect_loop_Some[of ok rnd 0 "[]" c] that by (simp add: connectWithRetry_def)
  then show ?thesis
    by (auto simp: api_gate_def api_def on_connected_def unavailable_def split: prod.splits)
qed

text \<open>
  A purchase before the connection is up, and the same after it came up at the third
  attempt.
\<close>

theorem gate_rejects_until_connected_witness:
  "api test_lib \<lparr>dbConnected = False, db = shop\<rparr> (PurchaseCall idA (quantity_body 2))
     = (Resp 503 (Message unavailable), \<lparr>dbConnected = False, db = shop\<rparr>)
   \<and> connectWithRetry (\<lambda>n. n = 3) (\<lambda>n. 0)
       = Some \<lparr>connected = True, attempts = 3, waited = [2000, 4000]\<rparr>
   \<and> fst (api test_lib
            (on_connected \<lparr>connected = True, attempts = 3, waited = [2000, 4000]\<rparr>
               \<lparr>dbConnected = False, db = shop\<rparr>)
            (PurchaseCall idA (quantity_body 2)))
       = Resp 200 (PurchaseBody ''Purchase successful'' (sweetA\<lparr>stock := Fin 1\<rparr>) (Fin 2))"
proof -
  let ?sv = "\<lparr>dbConnected = False, db = shop\<rparr>"
  let ?c = "\<lparr>connected = True, attempts = 3, waited = [2000, 4000]\<rparr>"
  have u: "[Suc 0..<3] = [1, 2]" by (simp add: upt_rec)
  have c: "connectWithRetry (\<lambda>n. n = 3) (\<lambda>n. 0) = Some ?c"
    using connect_loop_first[of 0 3 "\<lambda>n. n = 3" "\<lambda>n. 0" "[]"] u
    by (simp add: connectWithRetry_def wait_def backoff_delay_def jitter_def)
  have d: "\<not> dbConnected ?sv" by simp
  have p: "route test_lib (PurchaseCall idA (quantity_body 2)) shop
     = (Resp 200 (PurchaseBody ''Purchase successful'' (sweetA\<lparr>stock := Fin 1\<rparr>) (Fin 2)),
        shop\<lparr>sweets := (sweets shop)(idA \<mapsto> sweetA\<lparr>stock := Fin 1\<rparr>)\<rparr>)"
    using round_double_int[of 1]
    by (simp add: purchase_def purchase_qty_def num_or_def num_truthy_def findOneAndUpdate_stock_def
        Let_def test_defs)
  from gate_rejects_until_connected[of ?sv "\<lambda>sv. (Resp 200 (Message []), sv)" test_lib
      "PurchaseCall idA (quantity_body 2)" "\<lambda>n. n = 3" "\<lambda>n. 0" ?c] c d p
  show ?thesis by (simp add: on_connected_def)
qed

section \<open>Role resolution and the listing\<close>

lemma to_json_objs:
  "to_json (JArr (map JObj out)) = JArr (map (\<lambda>d. JObj (json_members d)) out)"
  by (simp add: json_members_def comp_def)

lemma json_members_hide:
  "json_members (set_prop d ''stock'' JUndefined) = filter (\<lambda>p. fst p \<noteq> ''stock'') (json_members d)"
proof -
  have a: "json_members (map (\<lambda>(k', v'). if k' = ''stock'' then (k', JUndefined) else (k', v')) d)
            = filter (\<lambda>p. fst p \<noteq> ''stock'') (json_members d)"
    by (induction d) (auto simp: json_members_def)
  have b: "json_members (d @ [(''stock'', JUndefined)]) = filter (\<lambda>p. fst p \<noteq> ''stock'') (json_members d)"
    if "''stock'' \<notin> fst ` set d"
    using that by (induction d) (auto simp: json_members_def)
  show ?thesis using a b by (simp add: set_prop_def)
qed

lemma requestIsAdmin_truthy:
  "truthy (requestIsAdmin L authorization) \<longleftrightarrow>
     (\<exists>auth token payload. authorization = Some auth \<and> bearer_token auth = Some token \<and> token \<noteq> []
        \<and> jwt_verify L token = Some payload \<and> truthy payload \<and> getp payload ''role'' = JStr ''admin'')"
  by (auto simp: requestIsAdmin_def requestIsAdmin_try_def js_and_def bearer_token_def Let_def
      split: option.splits sum.splits if_splits)

text \<open>
  C9.  For a caller who does not resolve to admin, the listing is the admin's listing
  with the member \<open>stock\<close> left out of every item: the member is absent, and the other
  members are the same, in the same order.  Resolving the role never throws: an error
  of the token check gives \<open>false\<close>, and the result is truthy only for a header
  \<open>Bearer <token>\<close> whose token verifies with a payload of role \<open>admin\<close>.
\<close>

theorem stock_hidden_from_non_admins:
  "(\<not> truthy (requestIsAdmin L authorization) \<longrightarrow>
      list_sweets L authorization docs
        = Resp 200 (Json (JArr (map (\<lambda>d. JObj (filter (\<lambda>p. fst p \<noteq> ''stock'') (json_members d))) docs))))
   \<and> (truthy (requestIsAdmin L authorization) \<longrightarrow>
      list_sweets L authorization docs = Resp 200 (Json (JArr (map (\<lambda>d. JObj (json_members d)) docs))))
   \<and> (\<forall>err. requestIsAdmin_try L authorization = Inl err \<longrightarrow>
        requestIsAdmin L authorization = JBool False)
   \<and> (truthy (requestIsAdmin L authorization) \<longleftrightarrow>
        (\<exists>auth token payload. authorization = Some auth \<and> bearer_token auth = Some token \<and> token \<noteq> []
           \<and> jwt_verify L token = Some payload \<and> truthy payload
           \<and> getp payload ''role'' = JStr ''admin''))"
proof -
  have a: "list_sweets L authorization docs
        = Resp 200 (Json (JArr (map (\<lambda>d. JObj (filter (\<lambda>p. fst p \<noteq> ''stock'') (json_members d))) docs)))"
    if "\<not> truthy (requestIsAdmin L authorization)"
    using that
    by (simp add: list_sweets_def hideStockForNonAdmin_def to_json_objs json_members_hide
        comp_def del: to_json.simps)
  have b: "list_sweets L authorization docs = Resp 200 (Json (JArr (map (\<lambda>d. JObj (json_members d)) docs)))"
    if "truthy (requestIsAdmin L authorization)"
    using that
    by (simp add: list_sweets_def hideStockForNonAdmin_def to_json_objs del: to_json.simps)
  have c: "\<forall>err. requestIsAdmin_try L authorization = Inl err \<longrightarrow>
        requestIsAdmin L authorization = JBool False"
    by (simp add: requestIsAdmin_def)
  show ?thesis using a b c requestIsAdmin_truthy[of L authorization] by blast
qed

text \<open>
  One sweet, listed for a caller without header, for a user, for a bad token and for an
  admin.
\<close>

theorem stock_hidden_from_non_admins_witness:
  "list_sweets test_lib None [[(''name'', JStr ''Ladoo''), (''stock'', JNum (Fin 3))]]
     = Resp 200 (Json (JArr [JObj [(''name'', JStr ''Ladoo'')]]))
   \<and> list_sweets test_lib (Some ''Bearer user-token'') [[(''name'', JStr ''Ladoo''), (''stock'', JNum (Fin 3))]]
     = Resp 200 (Json (JArr [JObj [(''name'', JStr ''Ladoo'')]]))
   \<and> requestIsAdmin_try test_lib (Some ''Bearer forged'') = Inl JsonWebTokenError
   \<and> requestIsAdmin test_lib (Some ''Bearer forged'') = JBool False
   \<and> list_sweets test_lib (Some ''Bearer admin-token'') [[(''name'', JStr ''Ladoo''), (''stock'', JNum (Fin 3))]]
     = Resp 200 (Json (JArr [JObj [(''name'', JStr ''Ladoo''), (''stock'', JNum (Fin 3))]]))"
proof -
  let ?docs = "[[(''name'', JStr ''Ladoo''), (''stock'', JNum (Fin 3))]]"
  have a: "\<not> truthy (requestIsAdmin test_lib None)"
    "\<not> truthy (requestIsAdmin test_lib (Some ''Bearer user-token''))"
    "truthy (requestIsAdmin test_lib (Some ''Bearer admin-token''))"
    by (simp_all add: requestIsAdmin_def requestIsAdmin_try_def bearer_token_def js_and_def test_lib_def)
  have f: "requestIsAdmin_try test_lib (Some ''Bearer forged'') = Inl JsonWebTokenError"
    by (simp add: requestIsAdmin_try_def bearer_token_def test_lib_def)
  have m: "json_members [(''name'', JStr ''Ladoo''), (''stock'', JNum (Fin 3))]
             = [(''name'', JStr ''Ladoo''), (''stock'', JNum (Fin 3))]"
    by (simp add: json_members_def)
  from stock_hidden_from_non_admins[of test_lib None ?docs]
    stock_hidden_from_non_admins[of test_lib "Some ''Bearer user-token''" ?docs]
    stock_hidden_from_non_admins[of test_lib "Some ''Bearer forged''" ?docs]
    stock_hidden_from_non_admins[of test_lib "Some ''Bearer admin-token''" ?docs] a f m
  show ?thesis by simp
qed

end
